theory Spec2Isabelle
  imports Main "HOL-Library.Word"
begin

section \<open>The PassCode component: values of the host language\<close>

text \<open>
  The component is \<^verbatim>\<open>PassCode\<close> with its two event handlers \<^verbatim>\<open>handlePaste\<close> and
  \<^verbatim>\<open>handleKeyDown\<close> and the helper \<^verbatim>\<open>moveFocus\<close>. A handler is a function from the
  component state and the event to a record of the effects it performs: whether
  \<^verbatim>\<open>event.preventDefault()\<close> ran, the argument of the \<^verbatim>\<open>moveFocus\<close> call, the array
  handed to \<^verbatim>\<open>setCode\<close>.

  A string of the host language is a sequence of UTF-16 code units: \<^verbatim>\<open>length\<close>,
  \<^verbatim>\<open>slice\<close> and indexing count code units, while \<^verbatim>\<open>Array.from\<close> walks a string by
  code points and so keeps a surrogate pair together.
\<close>

type_synonym code_unit = "16 word"
type_synonym jsstring = "code_unit list"

definition ascii :: "string \<Rightarrow> jsstring" where
  "ascii s = map (\<lambda>c. of_nat (of_char c)) s"

text \<open>
  The handlers work on \<^verbatim>\<open>Number(target.dataset.index)\<close>, which is \<^verbatim>\<open>NaN\<close> or a number.
  \<^verbatim>\<open>renderChild\<close> writes the integer position of the child, so the numbers of the model
  are the integers. The conversion of the attribute's text is \<open>Number\<close> below.
\<close>

datatype jsnum = NaN | Num int

text \<open>An array element is a string or \<^verbatim>\<open>undefined\<close> (a hole reads as \<^verbatim>\<open>undefined\<close>).\<close>

datatype cell = Undefined | Str jsstring

fun num_add :: "jsnum \<Rightarrow> int \<Rightarrow> jsnum" where
  "num_add NaN k = NaN"
| "num_add (Num i) k = Num (i + k)"

fun num_gt :: "jsnum \<Rightarrow> int \<Rightarrow> bool" where
  "num_gt NaN k = False"
| "num_gt (Num i) k = (k < i)"

text \<open>\<^verbatim>\<open>index === undefined\<close>: a number is never strictly equal to \<^verbatim>\<open>undefined\<close>.\<close>

definition is_undefined :: "jsnum \<Rightarrow> bool" where
  "is_undefined n = False"

text \<open>
  \<^verbatim>\<open>next[index] = v\<close>. An integer from 0 to \<open>2^32 - 2\<close> is an array index: the
  assignment replaces the element, or extends the array when the index is at or past its
  length, leaving holes in between. Any other number names an ordinary property, and the
  elements of the array stay as they are.
\<close>

definition array_set :: "cell list \<Rightarrow> jsnum \<Rightarrow> cell \<Rightarrow> cell list" where
  "array_set xs idx v =
     (case idx of
        NaN \<Rightarrow> xs
      | Num i \<Rightarrow>
          if 0 \<le> i \<and> nat i < length xs then xs[nat i := v]
          else if 0 \<le> i \<and> i < 4294967295
          then xs @ replicate (nat i - length xs) Undefined @ [v]
          else xs)"

text \<open>\<^verbatim>\<open>pasted[k]\<close>: the code unit at \<open>k\<close> as a string of length one, or \<^verbatim>\<open>undefined\<close>.\<close>

definition string_at :: "jsstring \<Rightarrow> int \<Rightarrow> cell" where
  "string_at s k = (if 0 \<le> k \<and> nat k < length s then Str [s ! nat k] else Undefined)"

text \<open>\<^verbatim>\<open>x ?? d\<close>.\<close>

fun nullish :: "cell \<Rightarrow> jsstring \<Rightarrow> cell" where
  "nullish Undefined d = Str d"
| "nullish (Str s) d = Str s"

definition is_high_surrogate :: "code_unit \<Rightarrow> bool" where
  "is_high_surrogate c = (0xD800 \<le> c \<and> c \<le> 0xDBFF)"

definition is_low_surrogate :: "code_unit \<Rightarrow> bool" where
  "is_low_surrogate c = (0xDC00 \<le> c \<and> c \<le> 0xDFFF)"

text \<open>
  The string iterator: one element for each code point, a high surrogate followed by a
  low surrogate being one code point of two code units.
\<close>

fun string_iterator :: "jsstring \<Rightarrow> jsstring list" where
  "string_iterator [] = []"
| "string_iterator [c] = [[c]]"
| "string_iterator (c # d # cs) =
     (if is_high_surrogate c \<and> is_low_surrogate d then [c, d] # string_iterator cs
      else [c] # string_iterator (d # cs))"

text \<open>\<^verbatim>\<open>Array.from(s)\<close> for a string \<open>s\<close>.\<close>

definition Array_from :: "jsstring \<Rightarrow> cell list" where
  "Array_from s = map Str (string_iterator s)"

text \<open>\<^verbatim>\<open>s.slice(0, n)\<close>.\<close>

definition slice0 :: "jsstring \<Rightarrow> nat \<Rightarrow> jsstring" where
  "slice0 s n = take n s"

section \<open>State, events and effects\<close>

text \<open>
  \<^verbatim>\<open>const [numberOfDigits] = useState(Children.count(children))\<close> and
  \<^verbatim>\<open>const [code, setCode] = useState(Array.from({ length: numberOfDigits }, () => ""))\<close>.
\<close>

record state =
  numberOfDigits :: nat
  code :: "cell list"

definition PassCode_init :: "nat \<Rightarrow> state" where
  "PassCode_init count = \<lparr>numberOfDigits = count, code = replicate count (Str [])\<rparr>"

text \<open>
  The fields of a keyboard event: \<^verbatim>\<open>key\<close>, the modifiers \<^verbatim>\<open>metaKey\<close> and \<^verbatim>\<open>ctrlKey\<close>
  (the handler reads only the first), and \<^verbatim>\<open>Number(target.dataset.index)\<close>.
\<close>

record key_event =
  key :: jsstring
  metaKey :: bool
  ctrlKey :: bool
  keyIndex :: jsnum

text \<open>
  A clipboard event: \<^verbatim>\<open>Number(target.dataset.index)\<close> and
  \<^verbatim>\<open>clipboardData.getData("text")\<close>.
\<close>

record clipboard_event =
  pasteIndex :: jsnum
  clipboardText :: jsstring

text \<open>
  What a handler did: whether it called \<^verbatim>\<open>event.preventDefault()\<close>, the argument of its
  \<^verbatim>\<open>moveFocus\<close> call, the array it gave to \<^verbatim>\<open>setCode\<close>, and the arguments of the calls
  it made to functions received through the props. \<^verbatim>\<open>PassCodeProps\<close> has the fields
  \<^verbatim>\<open>children\<close>, \<^verbatim>\<open>className\<close>, \<^verbatim>\<open>style\<close> and \<^verbatim>\<open>alphanumeric\<close>, none of them a function.
\<close>

record outcome =
  defaultPrevented :: bool
  focusRequest :: "jsnum option"
  setCode :: "cell list option"
  propCalls :: "jsstring list"

datatype error = MissingDataIndex

definition returned_at_once :: outcome where
  "returned_at_once =
     \<lparr>defaultPrevented = False, focusRequest = None, setCode = None, propCalls = []\<rparr>"

section \<open>moveFocus\<close>

text \<open>
  \<^verbatim>\<open>containerRef.current\<close> is \<^verbatim>\<open>null\<close> or the \<^verbatim>\<open>div\<close> whose children are the rendered
  cells. \<^verbatim>\<open>children[index]\<close> is \<^verbatim>\<open>undefined\<close> unless \<open>index\<close> is the position of a
  child, and only an \<^verbatim>\<open>HTMLInputElement\<close> is focused. The result is the position of the
  element that received the focus, if one did.
\<close>

datatype element = HTMLInputElement | OtherElement

type_synonym container = "element list option"

definition moveFocus :: "container \<Rightarrow> jsnum \<Rightarrow> nat option" where
  "moveFocus ref idx =
     (case ref of
        None \<Rightarrow> None
      | Some children \<Rightarrow>
          (case idx of
             NaN \<Rightarrow> None
           | Num i \<Rightarrow>
               if 0 \<le> i \<and> nat i < length children \<and> children ! nat i = HTMLInputElement
               then Some (nat i) else None))"

text \<open>The container as \<^verbatim>\<open>PassCode\<close> renders it for \<open>m\<close> children: one input for each.\<close>

definition rendered :: "nat \<Rightarrow> container" where
  "rendered m = Some (replicate m HTMLInputElement)"

section \<open>handlePaste\<close>

text \<open>
  \<^verbatim>\<open>for (let i = index; i < numberOfDigits; i++) next[i] = pasted[i - index] ?? ""\<close>,
  entered only past the return on \<^verbatim>\<open>isNaN(index)\<close>, so with a number for \<open>index\<close>.
\<close>

function paste_loop :: "jsstring \<Rightarrow> int \<Rightarrow> nat \<Rightarrow> int \<Rightarrow> cell list \<Rightarrow> cell list" where
  "paste_loop pasted idx n i next =
     (if i < int n
      then paste_loop pasted idx n (i + 1)
             (array_set next (Num i) (nullish (string_at pasted (i - idx)) []))
      else next)"
  by pat_completeness auto
termination
  by (relation "measure (\<lambda>(pasted, idx, n, i, next). nat (int n - i))") auto

declare paste_loop.simps [simp del]

text \<open>
  The case \<open>NaN\<close> is the return on \<^verbatim>\<open>index === undefined || isNaN(index)\<close>, after
  \<^verbatim>\<open>event.preventDefault()\<close>.
\<close>

definition handlePaste :: "state \<Rightarrow> clipboard_event \<Rightarrow> outcome" where
  "handlePaste s e =
     (case pasteIndex e of
        NaN \<Rightarrow>
          \<lparr>defaultPrevented = True, focusRequest = None, setCode = None, propCalls = []\<rparr>
      | Num idx \<Rightarrow>
          (let pasted = clipboardText e; len = length pasted in
           if len \<ge> numberOfDigits s then
             \<lparr>defaultPrevented = True,
              focusRequest = Some (Num (int (numberOfDigits s) - 1)),
              setCode = Some (Array_from (slice0 pasted (numberOfDigits s))),
              propCalls = []\<rparr>
           else
             \<lparr>defaultPrevented = True,
              focusRequest = Some (Num (idx + int len)),
              setCode = Some (paste_loop pasted idx (numberOfDigits s) idx (code s)),
              propCalls = []\<rparr>))"

section \<open>handleKeyDown\<close>

definition handleKeyDown :: "state \<Rightarrow> key_event \<Rightarrow> error + outcome" where
  "handleKeyDown s e =
     (if metaKey e \<and> key e = ascii ''v'' then Inr returned_at_once
      else if metaKey e then Inr returned_at_once
      else if is_undefined (keyIndex e) then Inl MissingDataIndex
      else if key e = ascii ''Backspace'' then
        Inr \<lparr>defaultPrevented = True,
             focusRequest = Some (num_add (keyIndex e) (- 1)),
             setCode = Some
               (let next = array_set (code s) (keyIndex e) (Str [])
                in if num_gt (keyIndex e) 0
                   then array_set next (num_add (keyIndex e) (- 1)) (Str [])
                   else next),
             propCalls = []\<rparr>
      else if length (key e) = 1 then
        Inr \<lparr>defaultPrevented = True,
             focusRequest = Some (num_add (keyIndex e) 1),
             setCode = Some (array_set (code s) (keyIndex e) (Str (key e))),
             propCalls = []\<rparr>
      else
        Inr \<lparr>defaultPrevented = True, focusRequest = None, setCode = None,
             propCalls = []\<rparr>)"

section \<open>The component after an event\<close>

text \<open>The state after the handler's \<^verbatim>\<open>setCode\<close>, and the cell that holds the focus.\<close>

definition next_state :: "state \<Rightarrow> outcome \<Rightarrow> state" where
  "next_state s out = (case setCode out of None \<Rightarrow> s | Some c \<Rightarrow> s\<lparr>code := c\<rparr>)"

definition focused :: "container \<Rightarrow> outcome \<Rightarrow> nat option" where
  "focused ref out = (case focusRequest out of None \<Rightarrow> None | Some idx \<Rightarrow> moveFocus ref idx)"

definition onPaste :: "state \<Rightarrow> clipboard_event \<Rightarrow> state" where
  "onPaste s e = next_state s (handlePaste s e)"

definition onKey :: "state \<Rightarrow> key_event \<Rightarrow> error + state" where
  "onKey s e = (case handleKeyDown s e of Inl err \<Rightarrow> Inl err | Inr out \<Rightarrow> Inr (next_state s out))"

section \<open>The position tag\<close>

text \<open>
  \<^verbatim>\<open>target.dataset.index\<close> is the text of the \<^verbatim>\<open>data-index\<close> attribute, or
  \<^verbatim>\<open>undefined\<close> when the element has none.
\<close>

type_synonym tag = "jsstring option"

text \<open>
  The white space and line terminators that the conversion of a string to a number strips
  from both ends.
\<close>

definition is_white_space :: "code_unit \<Rightarrow> bool" where
  "is_white_space c =
     (c \<in> {0x0009, 0x000A, 0x000B, 0x000C, 0x000D, 0x0020, 0x00A0, 0x1680, 0x2028, 0x2029,
            0x202F, 0x205F, 0x3000, 0xFEFF}
      \<or> (0x2000 \<le> c \<and> c \<le> 0x200A))"

definition trim :: "jsstring \<Rightarrow> jsstring" where
  "trim s = rev (dropWhile is_white_space (rev (dropWhile is_white_space s)))"

text \<open>
  The numeric literals of a string: a decimal literal, with an optional sign, is
  \<^verbatim>\<open>Infinity\<close> or digits with an optional fraction and an optional exponent; a binary,
  octal or hexadecimal literal is \<^verbatim>\<open>0b\<close>, \<^verbatim>\<open>0o\<close> or \<^verbatim>\<open>0x\<close> and digits, and takes no
  sign.
\<close>

definition is_digit :: "code_unit \<Rightarrow> bool" where
  "is_digit c = (0x30 \<le> c \<and> c \<le> 0x39)"

definition is_digits :: "jsstring \<Rightarrow> bool" where
  "is_digits s = (s \<noteq> [] \<and> list_all is_digit s)"

definition is_signed_integer :: "jsstring \<Rightarrow> bool" where
  "is_signed_integer s =
     (case s of
        [] \<Rightarrow> False
      | c # ds \<Rightarrow> if c = 0x2B \<or> c = 0x2D then is_digits ds else is_digits (c # ds))"

definition is_mantissa :: "jsstring \<Rightarrow> bool" where
  "is_mantissa m =
     (let a = takeWhile (\<lambda>c. c \<noteq> 0x2E) m in
      case dropWhile (\<lambda>c. c \<noteq> 0x2E) m of
        [] \<Rightarrow> is_digits a
      | dot # b \<Rightarrow> (is_digits a \<and> (b = [] \<or> is_digits b)) \<or> (a = [] \<and> is_digits b))"

definition is_unsigned_decimal :: "jsstring \<Rightarrow> bool" where
  "is_unsigned_decimal u =
     (u = ascii ''Infinity'' \<or>
      (is_mantissa (takeWhile (\<lambda>c. c \<noteq> 0x65 \<and> c \<noteq> 0x45) u) \<and>
       (case dropWhile (\<lambda>c. c \<noteq> 0x65 \<and> c \<noteq> 0x45) u of
          [] \<Rightarrow> True
        | e # x \<Rightarrow> is_signed_integer x)))"

definition unsigned_part :: "jsstring \<Rightarrow> jsstring" where
  "unsigned_part s =
     (case s of [] \<Rightarrow> [] | c # u \<Rightarrow> if c = 0x2B \<or> c = 0x2D then u else c # u)"

definition is_decimal_literal :: "jsstring \<Rightarrow> bool" where
  "is_decimal_literal s = is_unsigned_decimal (unsigned_part s)"

definition digit_value :: "code_unit \<Rightarrow> int" where
  "digit_value c =
     (if 0x30 \<le> c \<and> c \<le> 0x39 then uint c - 48
      else if 0x41 \<le> c \<and> c \<le> 0x46 then uint c - 55
      else uint c - 87)"

definition is_radix_digit :: "int \<Rightarrow> code_unit \<Rightarrow> bool" where
  "is_radix_digit base c =
     (((0x30 \<le> c \<and> c \<le> 0x39) \<or> (0x41 \<le> c \<and> c \<le> 0x46) \<or> (0x61 \<le> c \<and> c \<le> 0x66))
      \<and> digit_value c < base)"

definition radix_of :: "code_unit \<Rightarrow> int" where
  "radix_of r =
     (if r = 0x78 \<or> r = 0x58 then 16
      else if r = 0x6F \<or> r = 0x4F then 8
      else if r = 0x62 \<or> r = 0x42 then 2
      else 0)"

definition is_radix_literal :: "jsstring \<Rightarrow> bool" where
  "is_radix_literal s =
     (case s of
        z # r # ds \<Rightarrow> z = 0x30 \<and> radix_of r \<noteq> 0 \<and> ds \<noteq> [] \<and> list_all (is_radix_digit (radix_of r)) ds
      | _ \<Rightarrow> False)"

definition digits_value :: "int \<Rightarrow> jsstring \<Rightarrow> int" where
  "digits_value base ds = foldl (\<lambda>v c. base * v + digit_value c) 0 ds"

definition is_numeric_literal :: "jsstring \<Rightarrow> bool" where
  "is_numeric_literal s = (is_radix_literal s \<or> is_decimal_literal s)"

text \<open>
  \<^verbatim>\<open>Number(target.dataset.index)\<close>. \<^verbatim>\<open>undefined\<close> and a text that is not a numeric
  literal give \<^verbatim>\<open>NaN\<close>; an empty text, or one of white space only, gives 0; a literal of
  digits gives its integer. The result \<open>None\<close> stands for a number that is not among those
  of the model: an integer of magnitude \<open>2^53\<close> or more, an infinity, or the value of a
  literal with a fraction or an exponent.
\<close>

definition safe_integer :: "int \<Rightarrow> jsnum option" where
  "safe_integer v = (if - 9007199254740992 < v \<and> v < 9007199254740992 then Some (Num v) else None)"

definition Number :: "tag \<Rightarrow> jsnum option" where
  "Number t =
     (case t of
        None \<Rightarrow> Some NaN
      | Some str \<Rightarrow>
          (let s = trim str in
           if s = [] then Some (Num 0)
           else if is_radix_literal s then safe_integer (digits_value (radix_of (s ! 1)) (drop 2 s))
           else if is_decimal_literal s then
             (if is_digits (unsigned_part s)
              then safe_integer
                     ((if hd s = 0x2D then - 1 else 1) * digits_value 10 (unsigned_part s))
              else None)
           else Some NaN))"

section \<open>Notions used in the statements\<close>

text \<open>
  The paste accelerator as the handler tests for it:
  \<^verbatim>\<open>event.metaKey && event.key === "v"\<close>.
\<close>

definition is_paste_combination :: "key_event \<Rightarrow> bool" where
  "is_paste_combination e = (metaKey e \<and> key e = ascii ''v'')"

text \<open>A number that is one of the positions \<open>0..n-1\<close>.\<close>

fun is_position :: "nat \<Rightarrow> jsnum \<Rightarrow> bool" where
  "is_position n NaN = False"
| "is_position n (Num i) = (0 \<le> i \<and> i < int n)"

text \<open>
  A tag that is missing or whose text is not a numeric literal, and a tag whose text is
  empty or white space only.
\<close>

definition not_numeric :: "tag \<Rightarrow> bool" where
  "not_numeric t = (case t of None \<Rightarrow> True | Some str \<Rightarrow> \<not> is_numeric_literal (trim str))"

definition blank :: "tag \<Rightarrow> bool" where
  "blank t = (case t of None \<Rightarrow> False | Some str \<Rightarrow> trim str = [])"

text \<open>A code with an empty position, and the code joined into one string.\<close>

definition has_empty :: "cell list \<Rightarrow> bool" where
  "has_empty c = (Str [] \<in> set c)"

fun joined :: "cell list \<Rightarrow> jsstring" where
  "joined [] = []"
| "joined (Undefined # xs) = joined xs"
| "joined (Str s # xs) = s @ joined xs"

section \<open>Array assignment\<close>

lemma array_set_in_range:
  "i < length xs \<Longrightarrow> array_set xs (Num (int i)) v = xs[i := v]"
  by (simp add: array_set_def)

lemma array_set_NaN: "array_set xs NaN v = xs"
  by (simp add: array_set_def)

lemma array_set_below:
  "i < int (length xs) \<Longrightarrow>
     array_set xs (Num i) v = (if 0 \<le> i then xs[nat i := v] else xs)"
  by (auto simp add: array_set_def nat_less_iff)

lemma array_set_length_position:
  "is_position (length xs) idx \<Longrightarrow> length (array_set xs idx v) = length xs"
  by (cases idx) (auto simp add: array_set_def)

lemma single_unit_not_Backspace: "length k = 1 \<Longrightarrow> k \<noteq> ascii ''Backspace''"
  by (auto simp add: ascii_def)

lemma PassCode_init_code:
  "length (code (PassCode_init n)) = n \<and> numberOfDigits (PassCode_init n) = n \<and>
   set (code (PassCode_init n)) \<subseteq> {Str []}"
  by (auto simp add: PassCode_init_def)

lemma string_at_within:
  "i \<le> k \<Longrightarrow> k < i + length p \<Longrightarrow> string_at p (int k - int i) = Str [p ! (k - i)]"
proof -
  assume a: "i \<le> k" "k < i + length p"
  then have "int k - int i = int (k - i)" by simp
  then have "nat (int k - int i) = k - i" by (simp only: nat_int)
  moreover have "k - i < length p" using a by arith
  moreover have "0 \<le> int k - int i" using a by simp
  ultimately show ?thesis by (simp only: string_at_def simp_thms if_True)
qed

lemma string_at_after:
  "i + length p \<le> k \<Longrightarrow> string_at p (int k - int i) = Undefined"
proof -
  assume a: "i + length p \<le> k"
  then have "int k - int i = int (k - i)" by simp
  then have "nat (int k - int i) = k - i" by (simp only: nat_int)
  moreover have "\<not> k - i < length p" using a by arith
  ultimately show ?thesis by (simp only: string_at_def simp_thms if_False)
qed

section \<open>The paste loop\<close>

text \<open>
  On an array of \<open>n\<close> elements the loop keeps the length, writes every position from
  \<open>i\<close> on and leaves the positions before \<open>i\<close> alone.
\<close>

lemma paste_loop_length:
  "length next = n \<Longrightarrow> length (paste_loop pasted idx n i next) = n"
proof (induction pasted idx n i "next" rule: paste_loop.induct)
  case (1 pasted idx n i nxt)
  show ?case
  proof (cases "i < int n")
    case True
    then have "length (array_set nxt (Num i) (nullish (string_at pasted (i - idx)) [])) = n"
      using "1.prems" by (simp add: array_set_below)
    with True "1.IH" show ?thesis by (subst paste_loop.simps) simp
  next
    case False
    with "1.prems" show ?thesis by (subst paste_loop.simps) simp
  qed
qed

lemma paste_loop_nth:
  "length next = n \<Longrightarrow> k < n \<Longrightarrow>
     paste_loop pasted idx n i next ! k =
       (if i \<le> int k then nullish (string_at pasted (int k - idx)) [] else next ! k)"
proof (induction pasted idx n i "next" rule: paste_loop.induct)
  case (1 pasted idx n i nxt)
  show ?case
  proof (cases "i < int n")
    case True
    let ?v = "nullish (string_at pasted (i - idx)) []"
    let ?nxt = "array_set nxt (Num i) ?v"
    have eq: "?nxt = (if 0 \<le> i then nxt[nat i := ?v] else nxt)"
      using True "1.prems"(1) by (simp add: array_set_below)
    then have len: "length ?nxt = n" using "1.prems"(1) by simp
    have step: "paste_loop pasted idx n i nxt = paste_loop pasted idx n (i + 1) ?nxt"
      using True by (subst paste_loop.simps) simp
    have ih: "paste_loop pasted idx n (i + 1) ?nxt ! k =
        (if i + 1 \<le> int k then nullish (string_at pasted (int k - idx)) [] else ?nxt ! k)"
      using "1.IH" [OF True len "1.prems"(2)] .
    show ?thesis
    proof (cases "i + 1 \<le> int k")
      case True
      with step ih show ?thesis by simp
    next
      case False
      show ?thesis
      proof (cases "i = int k")
        case True
        then have "?nxt ! k = ?v" using eq "1.prems" by simp
        with step ih False True show ?thesis by simp
      next
        case neq: False
        then have "?nxt ! k = nxt ! k" using eq by (auto simp add: nth_list_update)
        with step ih False neq show ?thesis by simp
      qed
    qed
  next
    case False
    with "1.prems" show ?thesis by (subst paste_loop.simps) simp
  qed
qed

section \<open>Text without surrogate pairs\<close>

lemma string_iterator_no_high:
  "\<forall>c\<in>set s. \<not> is_high_surrogate c \<Longrightarrow> string_iterator s = map (\<lambda>c. [c]) s"
  by (induction s rule: string_iterator.induct) auto

text \<open>
  A paste of at least \<open>numberOfDigits\<close> code units, none of the first \<open>numberOfDigits\<close>
  a high surrogate, sets the code to these code units, one to a position.
\<close>

lemma paste_whole_code_without_surrogates:
  assumes "pasteIndex e = Num i"
    and "numberOfDigits s \<le> length (clipboardText e)"
    and "\<forall>c\<in>set (take (numberOfDigits s) (clipboardText e)). \<not> is_high_surrogate c"
  shows "code (onPaste s e) = map (\<lambda>c. Str [c]) (take (numberOfDigits s) (clipboardText e)) \<and>
         length (code (onPaste s e)) = numberOfDigits s \<and>
         focusRequest (handlePaste s e) = Some (Num (int (numberOfDigits s) - 1))"
  using assms string_iterator_no_high [OF assms(3)]
  by (simp add: handlePaste_def onPaste_def next_state_def Let_def Array_from_def slice0_def)

section \<open>The completion callback\<close>

text \<open>
  C1, as amended. The component takes no completion callback and its handlers call no
  function of the caller's: for every key event and every paste event, also one that
  fills the last empty position, the handler returns without an error and the list of
  calls to functions received through the props is empty.
\<close>

theorem no_prop_function_called:
  "handleKeyDown s e \<noteq> Inl err \<and>
   (\<exists>out. handleKeyDown s e = Inr out \<and> propCalls out = []) \<and>
   propCalls (handlePaste s p) = []"
  by (auto simp add: handleKeyDown_def is_undefined_def returned_at_once_def handlePaste_def
      Let_def split: jsnum.splits)

text \<open>
  C1 as stated fails: with four cells holding "1", "2", "3" and an empty string, the key
  "4" in the last cell leaves no position empty, the joined code is "1234", and nothing
  was called with it.
\<close>

theorem completion_callback_counterexample:
  "handleKeyDown
     \<lparr>numberOfDigits = 4, code = [Str (ascii ''1''), Str (ascii ''2''), Str (ascii ''3''), Str []]\<rparr>
     \<lparr>key = ascii ''4'', metaKey = False, ctrlKey = False, keyIndex = Num 3\<rparr>
   = Inr \<lparr>defaultPrevented = True, focusRequest = Some (Num 4),
          setCode = Some [Str (ascii ''1''), Str (ascii ''2''), Str (ascii ''3''), Str (ascii ''4'')],
          propCalls = []\<rparr> \<and>
   has_empty [Str (ascii ''1''), Str (ascii ''2''), Str (ascii ''3''), Str []] \<and>
   \<not> has_empty [Str (ascii ''1''), Str (ascii ''2''), Str (ascii ''3''), Str (ascii ''4'')] \<and>
   joined [Str (ascii ''1''), Str (ascii ''2''), Str (ascii ''3''), Str (ascii ''4'')]
     = ascii ''1234'' \<and>
   ascii ''1234'' \<notin> set (propCalls
     \<lparr>defaultPrevented = True, focusRequest = Some (Num 4),
      setCode = Some [Str (ascii ''1''), Str (ascii ''2''), Str (ascii ''3''), Str (ascii ''4'')],
      propCalls = []\<rparr>)"
  by (simp add: handleKeyDown_def is_undefined_def array_set_def has_empty_def ascii_def)

section \<open>The paste accelerator\<close>

text \<open>
  C2, as amended. The key handler ignores the event entirely whenever the meta modifier
  is held, the paste accelerator Meta+V among these events: it returns before
  \<^verbatim>\<open>preventDefault\<close>, requests no focus move and leaves the state as it is. When neither
  the meta nor the control modifier is held it calls \<^verbatim>\<open>preventDefault\<close> and does not
  raise.
\<close>

theorem meta_ignored_else_default_prevented:
  "(metaKey e \<longrightarrow> handleKeyDown s e = Inr returned_at_once \<and> onKey s e = Inr s) \<and>
   (is_paste_combination e \<longrightarrow> handleKeyDown s e = Inr returned_at_once \<and> onKey s e = Inr s) \<and>
   (\<not> metaKey e \<and> \<not> ctrlKey e \<longrightarrow>
      (\<exists>out. handleKeyDown s e = Inr out \<and> defaultPrevented out))"
  by (simp add: handleKeyDown_def onKey_def next_state_def returned_at_once_def
      is_paste_combination_def is_undefined_def)

theorem meta_ignored_else_default_prevented_witness:
  "is_paste_combination \<lparr>key = ascii ''v'', metaKey = True, ctrlKey = False, keyIndex = Num 2\<rparr> \<and>
   handleKeyDown (PassCode_init 4)
     \<lparr>key = ascii ''v'', metaKey = True, ctrlKey = False, keyIndex = Num 2\<rparr>
     = Inr returned_at_once \<and>
   onKey (PassCode_init 4)
     \<lparr>key = ascii ''v'', metaKey = True, ctrlKey = False, keyIndex = Num 2\<rparr>
     = Inr (PassCode_init 4) \<and>
   (\<exists>out. handleKeyDown (PassCode_init 4)
       \<lparr>key = ascii ''ArrowLeft'', metaKey = False, ctrlKey = False, keyIndex = Num 2\<rparr>
       = Inr out \<and> defaultPrevented out)"
  using meta_ignored_else_default_prevented
      [of "\<lparr>key = ascii ''v'', metaKey = True, ctrlKey = False, keyIndex = Num 2\<rparr>"
          "PassCode_init 4"]
    meta_ignored_else_default_prevented
      [of "\<lparr>key = ascii ''ArrowLeft'', metaKey = False, ctrlKey = False, keyIndex = Num 2\<rparr>"
          "PassCode_init 4"]
  by (simp add: is_paste_combination_def)

text \<open>
  C2 as stated fails: Meta+A is not the paste accelerator, and the handler returns
  without suppressing the default handling.
\<close>

theorem meta_other_key_counterexample:
  "\<not> is_paste_combination
       \<lparr>key = ascii ''a'', metaKey = True, ctrlKey = False, keyIndex = Num 0\<rparr> \<and>
   handleKeyDown (PassCode_init 4)
     \<lparr>key = ascii ''a'', metaKey = True, ctrlKey = False, keyIndex = Num 0\<rparr>
     = Inr returned_at_once \<and>
   \<not> defaultPrevented returned_at_once"
  by (simp add: handleKeyDown_def is_paste_combination_def returned_at_once_def ascii_def)

section \<open>Paste\<close>

text \<open>
  C3 at a text with surrogate pairs. Four cells, and a paste of the four code units
  D83D DE00 D83D DE00 (twice the code point U+1F600): the text is as long as the code,
  the last cell is asked to take the focus, and the code becomes an array of two elements,
  each a surrogate pair, not the first four code units one to a position.
\<close>

theorem paste_surrogate_pairs_code:
  "numberOfDigits (PassCode_init 4) \<le> length [0xD83D, 0xDE00, 0xD83D, 0xDE00 :: code_unit] \<and>
   focusRequest (handlePaste (PassCode_init 4)
      \<lparr>pasteIndex = Num 0, clipboardText = [0xD83D, 0xDE00, 0xD83D, 0xDE00]\<rparr>)
    = Some (Num 3) \<and>
   code (onPaste (PassCode_init 4)
      \<lparr>pasteIndex = Num 0, clipboardText = [0xD83D, 0xDE00, 0xD83D, 0xDE00]\<rparr>)
    = [Str [0xD83D, 0xDE00], Str [0xD83D, 0xDE00]]"
  by (simp add: PassCode_init_def onPaste_def handlePaste_def next_state_def Array_from_def
      slice0_def is_high_surrogate_def is_low_surrogate_def)

text \<open>
  C4. A paste of \<open>L\<close> code units, \<open>L\<close> less than \<open>numberOfDigits\<close>, at position \<open>i\<close> of
  a code of \<open>numberOfDigits\<close> positions: the default insertion is suppressed, the focus is
  requested on \<open>i + L\<close>, the code keeps its length, every position before \<open>i\<close> is
  unchanged, the positions from \<open>i\<close> to \<open>i + L - 1\<close> hold the pasted code units in order,
  and the positions from \<open>i + L\<close> on are empty.
\<close>

theorem paste_short_text:
  assumes "pasteIndex e = Num (int i)"
    and "length (clipboardText e) < numberOfDigits s"
    and "length (code s) = numberOfDigits s"
  shows "defaultPrevented (handlePaste s e) \<and>
         focusRequest (handlePaste s e) = Some (Num (int (i + length (clipboardText e)))) \<and>
         length (code (onPaste s e)) = numberOfDigits s \<and>
         (\<forall>k. k < i \<and> k < numberOfDigits s \<longrightarrow> code (onPaste s e) ! k = code s ! k) \<and>
         (\<forall>k. i \<le> k \<and> k < i + length (clipboardText e) \<and> k < numberOfDigits s \<longrightarrow>
              code (onPaste s e) ! k = Str [clipboardText e ! (k - i)]) \<and>
         (\<forall>k. i + length (clipboardText e) \<le> k \<and> k < numberOfDigits s \<longrightarrow>
              code (onPaste s e) ! k = Str [])"
proof -
  let ?p = "clipboardText e" and ?n = "numberOfDigits s"
  let ?c = "paste_loop ?p (int i) ?n (int i) (code s)"
  have out: "handlePaste s e =
      \<lparr>defaultPrevented = True, focusRequest = Some (Num (int i + int (length ?p))),
       setCode = Some ?c, propCalls = []\<rparr>"
    using assms(1,2) by (simp add: handlePaste_def Let_def)
  then have c: "code (onPaste s e) = ?c"
    by (simp add: onPaste_def next_state_def)
  have len: "length ?c = ?n"
    using assms(3) by (rule paste_loop_length)
  have nth: "?c ! k =
      (if int i \<le> int k then nullish (string_at ?p (int k - int i)) [] else code s ! k)"
    if "k < ?n" for k
    using assms(3) that by (rule paste_loop_nth)
  have before: "?c ! k = code s ! k" if "k < i" "k < ?n" for k
    using nth [OF that(2)] that(1) by simp
  have within: "?c ! k = Str [?p ! (k - i)]" if "i \<le> k" "k < i + length ?p" "k < ?n" for k
    using nth [OF that(3)] that(1) string_at_within [OF that(1,2)] by simp
  have after: "?c ! k = Str []" if "i + length ?p \<le> k" "k < ?n" for k
  proof -
    have "i \<le> k" using that(1) by arith
    with nth [OF that(2)] string_at_after [OF that(1)] show ?thesis by simp
  qed
  have prevented: "defaultPrevented (handlePaste s e)"
    by (simp add: out)
  have request: "focusRequest (handlePaste s e) = Some (Num (int (i + length ?p)))"
    by (simp add: out)
  from prevented request len before within after show ?thesis
    unfolding c by blast
qed

theorem paste_short_text_witness:
  "pasteIndex \<lparr>pasteIndex = Num 1, clipboardText = ascii ''xy''\<rparr> = Num (int 1) \<and>
   length (clipboardText \<lparr>pasteIndex = Num 1, clipboardText = ascii ''xy''\<rparr>)
     < numberOfDigits (PassCode_init 4) \<and>
   length (code (PassCode_init 4)) = numberOfDigits (PassCode_init 4) \<and>
   focusRequest (handlePaste (PassCode_init 4)
       \<lparr>pasteIndex = Num 1, clipboardText = ascii ''xy''\<rparr>) = Some (Num 3) \<and>
   length (code (onPaste (PassCode_init 4)
       \<lparr>pasteIndex = Num 1, clipboardText = ascii ''xy''\<rparr>)) = 4 \<and>
   code (onPaste (PassCode_init 4) \<lparr>pasteIndex = Num 1, clipboardText = ascii ''xy''\<rparr>) ! 0
     = Str [] \<and>
   code (onPaste (PassCode_init 4) \<lparr>pasteIndex = Num 1, clipboardText = ascii ''xy''\<rparr>) ! 1
     = Str (ascii ''x'') \<and>
   code (onPaste (PassCode_init 4) \<lparr>pasteIndex = Num 1, clipboardText = ascii ''xy''\<rparr>) ! 2
     = Str (ascii ''y'') \<and>
   code (onPaste (PassCode_init 4) \<lparr>pasteIndex = Num 1, clipboardText = ascii ''xy''\<rparr>) ! 3
     = Str []"
proof -
  let ?e = "\<lparr>pasteIndex = Num 1, clipboardText = ascii ''xy''\<rparr>"
  let ?s = "PassCode_init 4"
  have h1: "pasteIndex ?e = Num (int 1)" by simp
  have h2: "length (clipboardText ?e) < numberOfDigits ?s"
    by (simp add: PassCode_init_def ascii_def)
  have h3: "length (code ?s) = numberOfDigits ?s"
    by (simp add: PassCode_init_def)
  note t = paste_short_text [OF h1 h2 h3]
  have l: "length (ascii ''xy'') = 2" by (simp add: ascii_def)
  have n: "numberOfDigits ?s = 4" by (simp add: PassCode_init_def)
  from t have req: "focusRequest (handlePaste ?s ?e) = Some (Num 3)"
    by (simp add: l)
  from t have len: "length (code (onPaste ?s ?e)) = 4"
    by (simp add: n)
  from t have "code (onPaste ?s ?e) ! 0 = code ?s ! 0"
    by (simp add: n)
  then have k0: "code (onPaste ?s ?e) ! 0 = Str []"
    by (simp add: PassCode_init_def)
  from t have "1 \<le> (1::nat) \<and> (1::nat) < 1 + length (clipboardText ?e) \<and> 1 < numberOfDigits ?s
      \<longrightarrow> code (onPaste ?s ?e) ! 1 = Str [clipboardText ?e ! (1 - 1)]"
    by blast
  then have k1: "code (onPaste ?s ?e) ! 1 = Str (ascii ''x'')"
    by (simp add: l n) (simp add: ascii_def)
  from t have "1 \<le> (2::nat) \<and> (2::nat) < 1 + length (clipboardText ?e) \<and> 2 < numberOfDigits ?s
      \<longrightarrow> code (onPaste ?s ?e) ! 2 = Str [clipboardText ?e ! (2 - 1)]"
    by blast
  then have k2: "code (onPaste ?s ?e) ! 2 = Str (ascii ''y'')"
    by (simp add: l n) (simp add: ascii_def)
  from t have "1 + length (clipboardText ?e) \<le> 3 \<and> 3 < numberOfDigits ?s
      \<longrightarrow> code (onPaste ?s ?e) ! 3 = Str []"
    by blast
  then have k3: "code (onPaste ?s ?e) ! 3 = Str []"
    by (simp add: l n)
  from h1 h2 h3 req len k0 k1 k2 k3 show ?thesis by blast
qed

section \<open>Typing and Backspace\<close>




text \<open>
  C6, as amended. For every Backspace key event with the meta modifier not held, delivered
  at a position \<open>i\<close> of the code: the handler suppresses the default handling, requests
  the focus on \<open>i - 1\<close>, clears position \<open>i\<close>, clears position \<open>i - 1\<close> as well when
  \<open>i > 0\<close>, and leaves the length and every other position unchanged.
\<close>

theorem backspace_clears:
  assumes "\<not> metaKey e" and "key e = ascii ''Backspace''"
    and "keyIndex e = Num (int i)" and "i < length (code s)"
  shows "\<exists>out. handleKeyDown s e = Inr out \<and>
           defaultPrevented out \<and>
           focusRequest out = Some (Num (int i - 1)) \<and>
           length (code (next_state s out)) = length (code s) \<and>
           code (next_state s out) ! i = Str [] \<and>
           (0 < i \<longrightarrow> code (next_state s out) ! (i - 1) = Str []) \<and>
           (\<forall>k. k < length (code s) \<and> k \<noteq> i \<and> Suc k \<noteq> i \<longrightarrow>
                code (next_state s out) ! k = code s ! k)"
proof -
  have a: "array_set (code s) (Num (int i)) (Str []) = (code s)[i := Str []]"
    using assms(4) by (rule array_set_in_range)
  show ?thesis
  proof (cases i)
    case 0
    with assms a show ?thesis
      by (simp add: handleKeyDown_def is_undefined_def next_state_def)
  next
    case (Suc j)
    have b: "array_set ((code s)[i := Str []]) (Num (int j)) (Str [])
               = (code s)[i := Str [], j := Str []]"
      using assms(4) Suc by (simp add: array_set_in_range)
    have c: "int i + - 1 = int j" using Suc by simp
    from assms a b c Suc show ?thesis
      by (auto simp add: handleKeyDown_def is_undefined_def next_state_def nth_list_update)
  qed
qed

theorem backspace_clears_witness:
  "\<not> metaKey \<lparr>key = ascii ''Backspace'', metaKey = False, ctrlKey = False, keyIndex = Num 2\<rparr> \<and>
   2 < length [Str (ascii ''1''), Str (ascii ''2''), Str [], Str []] \<and>
   (\<exists>out. handleKeyDown
        \<lparr>numberOfDigits = 4, code = [Str (ascii ''1''), Str (ascii ''2''), Str [], Str []]\<rparr>
        \<lparr>key = ascii ''Backspace'', metaKey = False, ctrlKey = False, keyIndex = Num 2\<rparr>
        = Inr out \<and>
      focusRequest out = Some (Num 1) \<and>
      code (next_state
        \<lparr>numberOfDigits = 4, code = [Str (ascii ''1''), Str (ascii ''2''), Str [], Str []]\<rparr>
        out) ! 1 = Str [] \<and>
      code (next_state
        \<lparr>numberOfDigits = 4, code = [Str (ascii ''1''), Str (ascii ''2''), Str [], Str []]\<rparr>
        out) ! 0 = Str (ascii ''1''))"
proof -
  let ?e = "\<lparr>key = ascii ''Backspace'', metaKey = False, ctrlKey = False, keyIndex = Num 2\<rparr>"
  let ?s = "\<lparr>numberOfDigits = 4, code = [Str (ascii ''1''), Str (ascii ''2''), Str [], Str []]\<rparr>"
  have h1: "\<not> metaKey ?e" by simp
  have h2: "key ?e = ascii ''Backspace''" by simp
  have h3: "keyIndex ?e = Num (int 2)" by simp
  have h4: "2 < length (code ?s)" by simp
  from backspace_clears [OF h1 h2 h3 h4] obtain out where
    o: "handleKeyDown ?s ?e = Inr out" "focusRequest out = Some (Num (int 2 - 1))"
      "0 < (2::nat) \<longrightarrow> code (next_state ?s out) ! (2 - 1) = Str []"
      "\<forall>k. k < length (code ?s) \<and> k \<noteq> 2 \<and> Suc k \<noteq> 2 \<longrightarrow>
           code (next_state ?s out) ! k = code ?s ! k"
    by (elim exE conjE) simp
  from o(3) have k1: "code (next_state ?s out) ! 1 = Str []" by simp
  from o(4) have "code (next_state ?s out) ! 0 = code ?s ! 0" by simp
  then have k0: "code (next_state ?s out) ! 0 = Str (ascii ''1'')" by simp
  from o(1,2) k1 k0 h1 show ?thesis by simp
qed

text \<open>
  C6 as stated fails: Meta+Backspace in the second of four cells, the first two holding
  "1" and "2", returns at once, and position 1 still holds "2".
\<close>

theorem meta_backspace_counterexample:
  "handleKeyDown
     \<lparr>numberOfDigits = 4, code = [Str (ascii ''1''), Str (ascii ''2''), Str [], Str []]\<rparr>
     \<lparr>key = ascii ''Backspace'', metaKey = True, ctrlKey = False, keyIndex = Num 1\<rparr>
     = Inr returned_at_once \<and>
   focusRequest returned_at_once = None \<and>
   code (next_state
     \<lparr>numberOfDigits = 4, code = [Str (ascii ''1''), Str (ascii ''2''), Str [], Str []]\<rparr>
     returned_at_once) ! 1 = Str (ascii ''2'') \<and>
   Str (ascii ''2'') \<noteq> Str []"
  by (simp add: handleKeyDown_def returned_at_once_def next_state_def ascii_def)

section \<open>The length of the code\<close>

text \<open>
  A key event at a position of the code, or with no number for a position, keeps the
  length of the code; so does a paste into a code of \<open>numberOfDigits\<close> positions when
  none of the first \<open>numberOfDigits\<close> code units of the text is a high surrogate.
\<close>

lemma onKey_length:
  assumes "is_position (length (code s)) (keyIndex e) \<or> keyIndex e = NaN"
    and "onKey s e = Inr s'"
  shows "length (code s') = length (code s)"
proof -
  have l: "length (array_set (code s) (keyIndex e) v) = length (code s)" for v
    using assms(1) by (auto simp add: array_set_length_position array_set_NaN)
  have m: "length (array_set (array_set (code s) (keyIndex e) v) (num_add (keyIndex e) (- 1)) w)
      = length (code s)" if "num_gt (keyIndex e) 0" for v w
  proof (cases "keyIndex e")
    case NaN
    with that show ?thesis by simp
  next
    case (Num i)
    have "length (array_set (code s) (keyIndex e) v) = length (code s)"
      by (rule l)
    moreover from Num that assms(1) have "is_position (length (code s)) (Num (i - 1))"
      by simp
    ultimately have "is_position (length (array_set (code s) (keyIndex e) v)) (Num (i - 1))"
      by simp
    then have "length (array_set (array_set (code s) (keyIndex e) v) (Num (i - 1)) w)
        = length (array_set (code s) (keyIndex e) v)"
      by (rule array_set_length_position)
    with Num l [of v] show ?thesis by simp
  qed
  from assms(2) show ?thesis
    by (auto simp add: onKey_def handleKeyDown_def next_state_def returned_at_once_def l m Let_def
        split: if_splits)
qed

lemma onPaste_length:
  assumes "length (code s) = numberOfDigits s"
    and "\<forall>c\<in>set (take (numberOfDigits s) (clipboardText e)). \<not> is_high_surrogate c"
  shows "length (code (onPaste s e)) = numberOfDigits s"
proof (cases "pasteIndex e")
  case NaN
  with assms(1) show ?thesis by (simp add: onPaste_def handlePaste_def next_state_def)
next
  case (Num idx)
  show ?thesis
  proof (cases "numberOfDigits s \<le> length (clipboardText e)")
    case True
    with Num string_iterator_no_high [OF assms(2)] show ?thesis
      by (simp add: onPaste_def handlePaste_def next_state_def Array_from_def slice0_def)
  next
    case False
    with Num paste_loop_length [OF assms(1)] show ?thesis
      by (simp add: onPaste_def handlePaste_def next_state_def Let_def)
  qed
qed

text \<open>
  C7 at a text with surrogate pairs. The code of a component with four cells has four
  elements after construction, and two after a paste of the four code units
  D83D DE00 D83D DE00.
\<close>

theorem paste_surrogate_pairs_length:
  "length (code (PassCode_init 4)) = 4 \<and>
   numberOfDigits (PassCode_init 4) = 4 \<and>
   length (code (onPaste (PassCode_init 4)
      \<lparr>pasteIndex = Num 0, clipboardText = [0xD83D, 0xDE00, 0xD83D, 0xDE00]\<rparr>)) = 2"
  by (simp add: PassCode_init_def onPaste_def handlePaste_def next_state_def Array_from_def
      slice0_def is_high_surrogate_def is_low_surrogate_def)

text \<open>
  A key at a position past the end of the code extends the array: with four cells, the
  key "x" at position 6 gives a code of seven elements.
\<close>

lemma key_past_the_end_extends:
  "onKey (PassCode_init 4)
     \<lparr>key = ascii ''x'', metaKey = False, ctrlKey = False, keyIndex = Num 6\<rparr>
   = Inr \<lparr>numberOfDigits = 4,
          code = [Str [], Str [], Str [], Str [], Undefined, Undefined, Str (ascii ''x'')]\<rparr>"
  by (simp add: onKey_def handleKeyDown_def is_undefined_def next_state_def array_set_def
      PassCode_init_def ascii_def numeral_eq_Suc)

section \<open>Malformed position tags\<close>

text \<open>
  With \<^verbatim>\<open>NaN\<close> for the position, the key handler raises no error, leaves every position
  of the code as it is and focuses no element, and the paste handler sets no code and
  requests no focus.
\<close>

lemma NaN_index_no_change:
  "(keyIndex e = NaN \<longrightarrow>
      (\<exists>out. handleKeyDown s e = Inr out \<and> code (next_state s out) = code s \<and>
             focused ref out = None) \<and> onKey s e = Inr s) \<and>
   (pasteIndex p = NaN \<longrightarrow>
      setCode (handlePaste s p) = None \<and> focusRequest (handlePaste s p) = None \<and>
      onPaste s p = s)"
  by (auto simp add: handleKeyDown_def is_undefined_def next_state_def array_set_NaN
      returned_at_once_def focused_def moveFocus_def onKey_def handlePaste_def onPaste_def
      split: option.splits)

text \<open>
  The tags that \<open>Number\<close> takes to \<^verbatim>\<open>NaN\<close> are the missing tag and the texts that are
  neither a numeric literal nor blank.
\<close>

lemma safe_integer_not_NaN: "safe_integer v \<noteq> Some NaN"
  by (simp add: safe_integer_def)

lemma Number_NaN_iff: "Number t = Some NaN \<longleftrightarrow> not_numeric t \<and> \<not> blank t"
proof (cases t)
  case None
  then show ?thesis by (simp add: Number_def not_numeric_def blank_def)
next
  case (Some str)
  show ?thesis
  proof (cases "trim str = []")
    case True
    with Some show ?thesis by (simp add: Number_def blank_def)
  next
    case False
    with Some show ?thesis
      by (simp add: Number_def not_numeric_def blank_def is_numeric_literal_def
          safe_integer_not_NaN Let_def)
  qed
qed

text \<open>
  The text that \<^verbatim>\<open>renderChild\<close> writes for the third cell converts to its position, and
  a text of white space converts to 0.
\<close>

lemma Number_examples:
  "Number (Some (ascii ''2'')) = Some (Num 2) \<and> Number (Some (ascii '' '')) = Some (Num 0)"
  by (simp add: Number_def trim_def is_white_space_def ascii_def is_radix_literal_def
      is_decimal_literal_def unsigned_part_def is_unsigned_decimal_def is_mantissa_def
      is_digits_def is_digit_def safe_integer_def digits_value_def digit_value_def radix_of_def)

text \<open>
  C8, as amended. For every key event and every paste event whose position tag is missing,
  or is a text that is neither a numeric literal nor blank, so that its conversion to a
  number is \<^verbatim>\<open>NaN\<close>: the key handler raises no error, the code after the event is the
  code before it and no element takes the focus; the paste handler sets no code and
  requests no focus, and the state is unchanged.
\<close>

theorem unparseable_tag_no_change:
  "(not_numeric t \<and> \<not> blank t \<and> Number t = Some (keyIndex e) \<longrightarrow>
      (\<exists>out. handleKeyDown s e = Inr out \<and> code (next_state s out) = code s \<and>
             focused ref out = None) \<and> onKey s e = Inr s) \<and>
   (not_numeric t' \<and> \<not> blank t' \<and> Number t' = Some (pasteIndex p) \<longrightarrow>
      setCode (handlePaste s p) = None \<and> focusRequest (handlePaste s p) = None \<and>
      onPaste s p = s)"
proof -
  have k: "keyIndex e = NaN" if "not_numeric t \<and> \<not> blank t" "Number t = Some (keyIndex e)"
    using that Number_NaN_iff [of t] by simp
  have q: "pasteIndex p = NaN" if "not_numeric t' \<and> \<not> blank t'" "Number t' = Some (pasteIndex p)"
    using that Number_NaN_iff [of t'] by simp
  from k q NaN_index_no_change [of e s ref p] show ?thesis by blast
qed

theorem unparseable_tag_no_change_witness:
  "not_numeric None \<and> \<not> blank None \<and>
   Number None = Some (keyIndex
     \<lparr>key = ascii ''5'', metaKey = False, ctrlKey = False, keyIndex = NaN\<rparr>) \<and>
   onKey (PassCode_init 4) \<lparr>key = ascii ''5'', metaKey = False, ctrlKey = False, keyIndex = NaN\<rparr>
     = Inr (PassCode_init 4) \<and>
   not_numeric (Some (ascii ''x1'')) \<and> \<not> blank (Some (ascii ''x1'')) \<and>
   Number (Some (ascii ''x1'')) = Some (pasteIndex
     \<lparr>pasteIndex = NaN, clipboardText = ascii ''1234''\<rparr>) \<and>
   onPaste (PassCode_init 4) \<lparr>pasteIndex = NaN, clipboardText = ascii ''1234''\<rparr>
     = PassCode_init 4"
proof -
  let ?e = "\<lparr>key = ascii ''5'', metaKey = False, ctrlKey = False, keyIndex = NaN\<rparr>"
  let ?p = "\<lparr>pasteIndex = NaN, clipboardText = ascii ''1234''\<rparr>"
  have x: "trim (ascii ''x1'') = ascii ''x1''"
    by (simp add: trim_def ascii_def is_white_space_def)
  have h1: "not_numeric None \<and> \<not> blank None \<and> Number None = Some (keyIndex ?e)"
    by (simp add: not_numeric_def blank_def Number_def)
  have n: "not_numeric (Some (ascii ''x1''))"
    unfolding not_numeric_def option.case x
    by (simp add: ascii_def is_numeric_literal_def is_radix_literal_def is_decimal_literal_def
        unsigned_part_def is_unsigned_decimal_def is_mantissa_def is_digits_def is_digit_def)
  have b: "\<not> blank (Some (ascii ''x1''))"
    unfolding blank_def option.case x by (simp add: ascii_def)
  from n b have h2: "not_numeric (Some (ascii ''x1'')) \<and> \<not> blank (Some (ascii ''x1'')) \<and>
      Number (Some (ascii ''x1'')) = Some (pasteIndex ?p)"
    using Number_NaN_iff [of "Some (ascii ''x1'')"] by simp
  from unparseable_tag_no_change [of None ?e "PassCode_init 4" "rendered 4" "Some (ascii ''x1'')" ?p]
    h1 h2
  show ?thesis by blast
qed

text \<open>
  C8 as stated fails: an empty tag is not a numeric literal, its conversion to a number
  is 0, and in four empty cells the key "5" is written to position 0 and the second cell
  takes the focus.
\<close>

theorem blank_tag_counterexample:
  "not_numeric (Some []) \<and>
   Number (Some []) = Some (Num 0) \<and>
   handleKeyDown (PassCode_init 4)
     \<lparr>key = ascii ''5'', metaKey = False, ctrlKey = False, keyIndex = Num 0\<rparr>
   = Inr \<lparr>defaultPrevented = True, focusRequest = Some (Num 1),
          setCode = Some [Str (ascii ''5''), Str [], Str [], Str []], propCalls = []\<rparr> \<and>
   code (PassCode_init 4) = [Str [], Str [], Str [], Str []] \<and>
   moveFocus (rendered 4) (Num 1) = Some 1"
  by (simp add: not_numeric_def Number_def trim_def is_numeric_literal_def is_radix_literal_def
      is_decimal_literal_def unsigned_part_def is_unsigned_decimal_def is_mantissa_def
      is_digits_def ascii_def handleKeyDown_def is_undefined_def array_set_def PassCode_init_def
      moveFocus_def rendered_def numeral_eq_Suc)

section \<open>Focus requests outside the cells\<close>

text \<open>
  C9, as amended. For every focus request with a number that is not one of the positions
  \<open>0..M-1\<close>, where \<open>M\<close> is the number of elements the container holds at the time of
  the request, no element is focused, and so for the requests \<open>-1\<close> and \<open>M\<close>; with no
  container there is no focus either. When the container holds \<open>numberOfDigits\<close>
  elements these are the requests outside \<open>0..numberOfDigits-1\<close>. \<^verbatim>\<open>moveFocus\<close> has no
  error to raise.
\<close>

theorem moveFocus_out_of_range:
  assumes "\<not> is_position (length children) idx"
  shows "moveFocus (Some children) idx = None \<and> moveFocus None idx = None \<and>
         moveFocus (Some children) (Num (- 1)) = None \<and>
         moveFocus (Some children) (Num (int (length children))) = None \<and>
         (length children = numberOfDigits s \<longrightarrow>
            \<not> is_position (numberOfDigits s) idx \<and>
            moveFocus (Some children) (Num (int (numberOfDigits s))) = None)"
  using assms by (cases idx) (auto simp add: moveFocus_def)

theorem moveFocus_out_of_range_witness:
  "\<not> is_position (length (replicate 4 HTMLInputElement)) (Num 4) \<and>
   length (replicate 4 HTMLInputElement) = numberOfDigits (PassCode_init 4) \<and>
   moveFocus (rendered 4) (Num 4) = None \<and>
   moveFocus (rendered 4) (Num (- 1)) = None \<and>
   moveFocus (rendered 4) (Num 3) = Some 3"
proof -
  have h1: "\<not> is_position (length (replicate 4 HTMLInputElement)) (Num 4)"
    by simp
  have h2: "length (replicate 4 HTMLInputElement) = numberOfDigits (PassCode_init 4)"
    by (simp add: PassCode_init_def)
  have "moveFocus (rendered 4) (Num 3) = Some 3"
    by (simp add: moveFocus_def rendered_def)
  with moveFocus_out_of_range [OF h1, of "PassCode_init 4"] h1 h2 show ?thesis
    by (simp add: rendered_def)
qed

text \<open>
  C9 as stated fails: the number of digits is fixed at four at the first mount, the
  container later holds seven cells, and the key "7" in the fourth cell requests the focus
  on position 4, which is outside \<open>0..3\<close>: the fifth cell takes the focus.
\<close>

theorem focus_past_the_digit_count_counterexample:
  "numberOfDigits (PassCode_init 4) = 4 \<and>
   \<not> is_position (numberOfDigits (PassCode_init 4)) (Num 4) \<and>
   handleKeyDown (PassCode_init 4)
     \<lparr>key = ascii ''7'', metaKey = False, ctrlKey = False, keyIndex = Num 3\<rparr>
   = Inr \<lparr>defaultPrevented = True, focusRequest = Some (Num 4),
          setCode = Some [Str [], Str [], Str [], Str (ascii ''7'')], propCalls = []\<rparr> \<and>
   moveFocus (rendered 7) (Num 4) = Some 4"
  by (simp add: PassCode_init_def handleKeyDown_def is_undefined_def array_set_def ascii_def
      moveFocus_def rendered_def numeral_eq_Suc)

text \<open>
  The two requests that the key handler makes outside the cells: \<open>-1\<close> for Backspace in
  the first cell, and the number of cells for a character typed in the last one.
\<close>

lemma backspace_at_first_cell_no_focus:
  assumes "\<not> metaKey e" and "key e = ascii ''Backspace''" and "keyIndex e = Num 0"
  shows "\<exists>out. handleKeyDown s e = Inr out \<and> focusRequest out = Some (Num (- 1)) \<and>
           focused ref out = None"
  using assms
  by (simp add: handleKeyDown_def is_undefined_def focused_def moveFocus_def split: option.splits)

lemma type_at_last_cell_no_focus:
  assumes "\<not> metaKey e" and "length (key e) = 1"
    and "keyIndex e = Num (int n - 1)" and "length children = n"
  shows "\<exists>out. handleKeyDown s e = Inr out \<and> focusRequest out = Some (Num (int n)) \<and>
           focused (Some children) out = None"
  using assms single_unit_not_Backspace [of "key e"]
  by (simp add: handleKeyDown_def is_undefined_def focused_def moveFocus_def)

section \<open>Meta-modified keys\<close>

text \<open>
  C10. For every key event in which the meta modifier is held, whatever the key is, the
  key handler returns at once: it does not call \<^verbatim>\<open>preventDefault\<close>, requests no focus
  move and does not set the code, so the state after the event is the state before it.
\<close>

theorem meta_key_returns_at_once:
  "metaKey e \<Longrightarrow>
     handleKeyDown s e = Inr returned_at_once \<and>
     \<not> defaultPrevented returned_at_once \<and>
     focusRequest returned_at_once = None \<and>
     setCode returned_at_once = None \<and>
     onKey s e = Inr s"
  by (simp add: handleKeyDown_def onKey_def next_state_def returned_at_once_def)

theorem meta_key_returns_at_once_witness:
  "metaKey \<lparr>key = ascii ''Backspace'', metaKey = True, ctrlKey = False, keyIndex = Num 1\<rparr> \<and>
   handleKeyDown (PassCode_init 4)
     \<lparr>key = ascii ''Backspace'', metaKey = True, ctrlKey = False, keyIndex = Num 1\<rparr>
     = Inr returned_at_once \<and>
   onKey (PassCode_init 4)
     \<lparr>key = ascii ''Backspace'', metaKey = True, ctrlKey = False, keyIndex = Num 1\<rparr>
     = Inr (PassCode_init 4)"
  using meta_key_returns_at_once
    [of "\<lparr>key = ascii ''Backspace'', metaKey = True, ctrlKey = False, keyIndex = Num 1\<rparr>"
        "PassCode_init 4"]
  by simp

end
